theory Spec2Isabelle
  imports Main
begin

text \<open>
  A model of \<open>examples/claude_voice_interactive.py\<close>: the wake-phrase extraction, the
  session that runs the child program on a pseudo-terminal with its three loops, and the
  driving loop of \<open>main\<close> with its cleanup.  The statements proved at the end are
  numbered C1 to C10.
\<close>

section \<open>Python string primitives used by the voice dispatcher\<close>

text \<open>
  Utterances are modelled as ASCII strings (\<open>char list\<close>).  The primitives below follow
  the behaviour of the Python \<open>str\<close> methods on ASCII text: \<open>lower\<close>, \<open>strip\<close>,
  \<open>lstrip(',')\<close>, the substring test \<open>in\<close>, \<open>split(sep, 1)\<close> and \<open>split(sep)\<close>.
\<close>

definition lower_char :: "char \<Rightarrow> char" where
  "lower_char c =
     (let n = (of_char c :: nat) in if 65 \<le> n \<and> n \<le> 90 then char_of (n + 32) else c)"

definition lower :: "string \<Rightarrow> string" where
  "lower s = map lower_char s"

definition is_space :: "char \<Rightarrow> bool" where
  \<comment> \<open>the ASCII characters for which \<open>str.isspace\<close> holds: TAB, LF, VT, FF, CR, FS, GS, RS, US, SPACE\<close>
  "is_space c = (let n = (of_char c :: nat) in (9 \<le> n \<and> n \<le> 13) \<or> (28 \<le> n \<and> n \<le> 32))"


definition strip :: "string \<Rightarrow> string" where
  "strip s = rev (dropWhile is_space (rev (dropWhile is_space s)))"

definition lstrip_comma :: "string \<Rightarrow> string" where
  "lstrip_comma s = dropWhile (\<lambda>c. c = CHR '','') s"

definition starts_with :: "string \<Rightarrow> string \<Rightarrow> bool" where
  "starts_with p t = (take (length p) t = p)"

fun find_sub :: "string \<Rightarrow> string \<Rightarrow> nat option" where
  "find_sub p [] = (if p = [] then Some 0 else None)"
| "find_sub p (c # cs) =
     (if starts_with p (c # cs) then Some 0
      else (case find_sub p cs of None \<Rightarrow> None | Some i \<Rightarrow> Some (Suc i)))"

definition contains :: "string \<Rightarrow> string \<Rightarrow> bool" where
  \<comment> \<open>\<open>contains p t\<close> is Python's \<open>p in t\<close>\<close>
  "contains p t = (find_sub p t \<noteq> None)"

definition split1 :: "string \<Rightarrow> string \<Rightarrow> string list" where
  \<comment> \<open>\<open>t.split(p, 1)\<close> for a non-empty separator\<close>
  "split1 p t =
     (case find_sub p t of None \<Rightarrow> [t] | Some i \<Rightarrow> [take i t, drop (i + length p) t])"

function split_all :: "string \<Rightarrow> string \<Rightarrow> string list" where
  "split_all p t =
     (if p = [] then [t]
      else (case find_sub p t of
              None \<Rightarrow> [t]
            | Some i \<Rightarrow> take i t # split_all p (drop (i + length p) t)))"
  by pat_completeness auto
termination
proof (relation "measure (\<lambda>(p, t). length t)")
  show "wf (measure (\<lambda>(p, t). length t))" by simp
next
  fix p t :: string and i :: nat
  have bound: "find_sub p t = Some i \<Longrightarrow> i + length p \<le> length t" for i
  proof (induction t arbitrary: i)
    case Nil
    then show ?case by (simp split: if_splits)
  next
    case (Cons c cs)
    show ?case
    proof (cases "starts_with p (c # cs)")
      case True
      then have "length (take (length p) (c # cs)) = length p"
        unfolding starts_with_def by (rule arg_cong)
      then have "min (length p) (length (c # cs)) = length p"
        by (simp only: length_take)
      then have "length p \<le> length (c # cs)"
        by arith
      with True Cons.prems show ?thesis by simp
    next
      case False
      with Cons.prems obtain j where "find_sub p cs = Some j" "i = Suc j"
        by (auto split: option.splits)
      with Cons.IH show ?thesis by fastforce
    qed
  qed
  assume "p \<noteq> []" and "find_sub p t = Some i"
  then have "i + length p \<le> length t" and "0 < length p"
    by (simp_all add: bound)
  then have "length t - (i + length p) < length t"
    by arith
  then show "((p, drop (i + length p) t), (p, t)) \<in> measure (\<lambda>(p, t). length t)"
    by simp
qed

declare split_all.simps [simp del]

section \<open>Wake-phrase extraction\<close>

definition WAKE_PHRASES :: "string list" where
  "WAKE_PHRASES = [''claude'', ''hey claude'', ''ok claude'', ''hi claude'']"

definition fillers :: "string list" where
  \<comment> \<open>the alternatives of the regular expression, in its order\<close>
  "fillers = [''please'', ''can you'', ''could you'', ''would you'']"

definition re_sub_filler :: "string \<Rightarrow> string" where
  \<comment> \<open>\<open>re.sub(r'^[,\s]*(please|can you|could you|would you)\s*', '', cmd)\<close>: the pattern is
      anchored at the start of the string, so at most one match is replaced\<close>
  "re_sub_filler cmd =
     (let r = dropWhile (\<lambda>c. c = CHR '','' \<or> is_space c) cmd in
      case List.find (\<lambda>f. starts_with f r) fillers of
        None \<Rightarrow> cmd
      | Some f \<Rightarrow> dropWhile is_space (drop (length f) r))"

fun extract_from :: "string list \<Rightarrow> string \<Rightarrow> string \<Rightarrow> string option" where
  \<comment> \<open>the \<open>for phrase in WAKE_PHRASES\<close> loop; \<open>None\<close> is Python's \<open>None\<close>\<close>
  "extract_from [] text text_lower = None"
| "extract_from (phrase # phrases) text text_lower =
     (if contains phrase text_lower then
        (let parts = split1 phrase text_lower in
         if length parts > 1 then
           (let cmd = strip (parts ! 1);
                cmd = re_sub_filler cmd in
            if cmd \<noteq> [] then
              Some (strip (lstrip_comma (strip (last (split_all phrase text)))))
            else Some [])
         else Some [])
      else extract_from phrases text text_lower)"

definition extract_command :: "string \<Rightarrow> string option" where
  "extract_command text = extract_from WAKE_PHRASES text (strip (lower text))"

section \<open>The session, the operating system and the trace of effects\<close>

text \<open>
  \<open>ClaudeInteractiveSession\<close> is a record of its attributes.  The attributes
  \<open>output_thread\<close>, \<open>input_thread\<close> and \<open>keyboard_thread\<close> are kept as the list of
  threads that \<open>start\<close> has launched.  \<open>command_queue\<close> is the FIFO content of the
  \<open>queue.Queue\<close>: \<open>put\<close> appends at the end, \<open>get\<close> removes the head.
\<close>

datatype thread = OutputThread | InputThread | KeyboardThread

record session =
  claude_path :: string
  master_fd :: "int option"
  pid :: "int option"
  running :: bool
  command_queue :: "string list"
  threads :: "thread list"

definition new_session :: "string \<Rightarrow> session" where
  \<comment> \<open>\<open>__init__\<close>\<close>
  "new_session path =
     \<lparr>claude_path = path, master_fd = None, pid = None, running = False,
      command_queue = [], threads = []\<rparr>"

datatype exn =
    KeyboardInterrupt | SystemExit
  | OSError | ProcessLookupError | ChildProcessError | TermiosError | RuntimeError


datatype pyval = PyNone | PyInt int

text \<open>
  Every effect outside the session object is appended to a trace, in program order:
  attribute and queue updates that other threads observe, system calls, and prints.
  \<open>ByThread\<close> marks an action of another thread that falls between the actions of the
  thread whose code is being followed.
\<close>

datatype action =
    SetRunning bool
  | QueuePut string
  | Write string
  | Sleep nat
  | Kill int
  | Waitpid int
  | Setraw
  | Tcsetattr
  | SttySane
  | Stdout string
  | Print string
  | ReportError exn
  | Traceback
  | ByThread thread action

text \<open>
  The child process as the parent's operating system sees it: running, exited with a
  status but not yet waited for, or already reaped.  The world holds the attributes of
  the real terminal (\<open>tty\<close>, of any type), whether the standard input is a terminal whose
  attributes can be set (\<open>tty_ok\<close>), the child, whether the child ignores the termination
  signal and the status with which it exits on the signal otherwise, whether writes to
  the master handle succeed (\<open>master_ok\<close>), and the trace.
\<close>

datatype proc = Alive | Zombie int | Reaped

record 'a world =
  tty :: 'a
  tty_ok :: bool
  child :: proc
  ignores_sigterm :: bool
  sigterm_status :: int
  master_ok :: bool
  trace :: "action list"

type_synonym 'a state = "session \<times> 'a world"

definition emit :: "action \<Rightarrow> 'a world \<Rightarrow> 'a world" where
  "emit a w = w\<lparr>trace := trace w @ [a]\<rparr>"

definition os_write :: "string \<Rightarrow> 'a world \<Rightarrow> exn + 'a world" where
  \<comment> \<open>\<open>os.write(self.master_fd, data)\<close>\<close>
  "os_write d w = (if master_ok w then Inr (emit (Write d) w) else Inl OSError)"

definition os_kill :: "int \<Rightarrow> 'a world \<Rightarrow> exn + 'a world" where
  \<comment> \<open>\<open>os.kill(pid, signal.SIGTERM)\<close>: a reaped process no longer exists; a zombie accepts
      the signal without effect; a running child exits unless it ignores the signal\<close>
  "os_kill p w =
     (case child w of
        Reaped \<Rightarrow> Inl ProcessLookupError
      | Zombie st \<Rightarrow> Inr (emit (Kill p) w)
      | Alive \<Rightarrow>
          Inr (emit (Kill p)
                 (if ignores_sigterm w then w else w\<lparr>child := Zombie (sigterm_status w)\<rparr>)))"

definition os_waitpid :: "int \<Rightarrow> 'a world \<Rightarrow> (exn + int \<times> 'a world) option" where
  \<comment> \<open>\<open>os.waitpid(pid, 0)\<close>: \<open>None\<close> when the call blocks for ever\<close>
  "os_waitpid p w =
     (case child w of
        Reaped \<Rightarrow> Some (Inl ChildProcessError)
      | Zombie st \<Rightarrow> Some (Inr (st, emit (Waitpid p) (w\<lparr>child := Reaped\<rparr>)))
      | Alive \<Rightarrow> None)"

definition tcsetattr :: "'a \<Rightarrow> 'a world \<Rightarrow> exn + 'a world" where
  \<comment> \<open>\<open>termios.tcsetattr(sys.stdin, termios.TCSADRAIN, attrs)\<close>\<close>
  "tcsetattr a w = (if tty_ok w then Inr (emit Tcsetattr (w\<lparr>tty := a\<rparr>)) else Inl TermiosError)"

definition reset_terminal :: "('a \<Rightarrow> 'a) \<Rightarrow> 'a world \<Rightarrow> 'a world" where
  \<comment> \<open>\<open>subprocess.run(["stty", "sane"], check=False)\<close>; \<open>sane\<close> is what the command does to
      the attributes\<close>
  "reset_terminal sane w = emit SttySane (w\<lparr>tty := sane (tty w)\<rparr>)"

section \<open>The session's operations\<close>

datatype fork_result = ForkFails | Forked int int

datatype 'a outcome = Returned 'a | Raised exn | Replaced

definition start :: "bool \<Rightarrow> fork_result \<Rightarrow> session \<Rightarrow> unit outcome \<times> session" where
  \<comment> \<open>\<open>start\<close>; \<open>exec_ok\<close> tells whether \<open>os.execv\<close> succeeds in the child, \<open>Forked p fd\<close> is the
      pair that \<open>pty.fork()\<close> returns in this process (\<open>p = 0\<close> in the child)\<close>
  "start exec_ok fr s =
     (case fr of
        ForkFails \<Rightarrow> (Raised OSError, s)
      | Forked p fd \<Rightarrow>
          (let s1 = s\<lparr>pid := Some p, master_fd := Some fd\<rparr> in
           if p = 0 then (if exec_ok then (Replaced, s1) else (Raised OSError, s1))
           else (Returned (),
                 s1\<lparr>running := True, threads := [OutputThread, InputThread, KeyboardThread]\<rparr>)))"

definition queue_put :: "string \<Rightarrow> 'a state \<Rightarrow> 'a state" where
  \<comment> \<open>\<open>self.command_queue.put(item)\<close>; the queue is unbounded, so \<open>put\<close> never blocks\<close>
  "queue_put item st =
     (case st of (s, w) \<Rightarrow>
        (s\<lparr>command_queue := command_queue s @ [item]\<rparr>, emit (QueuePut item) w))"

definition send_command :: "string \<Rightarrow> 'a state \<Rightarrow> 'a state" where
  "send_command command st = queue_put command st"

definition truthy_pid :: "int option \<Rightarrow> bool" where
  \<comment> \<open>\<open>if self.pid:\<close>\<close>
  "truthy_pid p = (p \<noteq> None \<and> p \<noteq> Some 0)"

definition stop :: "'a state \<Rightarrow> (pyval \<times> 'a state) option" where
  \<comment> \<open>\<open>stop\<close>; \<open>None\<close> when \<open>os.waitpid\<close> never returns.  The function has no
      \<open>return\<close> statement, so its value is \<open>None\<close> of Python.\<close>
  "stop st =
     (case st of (s, w) \<Rightarrow>
        (let s1 = s\<lparr>running := False\<rparr>;
             w1 = emit (SetRunning False) w;
             (s2, w2) = queue_put ''EXIT'' (s1, w1)
         in if truthy_pid (pid s2) then
              (case os_kill (the (pid s2)) w2 of
                 Inl e \<Rightarrow> Some (PyNone, (s2, w2))
               | Inr w3 \<Rightarrow>
                   (case os_waitpid (the (pid s2)) w3 of
                      None \<Rightarrow> None
                    | Some (Inl e) \<Rightarrow> Some (PyNone, (s2, w3))
                    | Some (Inr (status, w4)) \<Rightarrow> Some (PyNone, (s2, w4))))
            else Some (PyNone, (s2, w2))))"

section \<open>The three loops of the session\<close>

datatype ctl = Continue | Broke | Died exn

datatype thread_end = Looping | Finished | Crashed exn

definition CR :: char where
  "CR = CHR 0x0D"

fun type_chars :: "string \<Rightarrow> 'a world \<Rightarrow> exn option \<times> 'a world" where
  \<comment> \<open>\<open>for char in cmd: os.write(self.master_fd, char.encode()); time.sleep(0.01)\<close>,
      sleeps in milliseconds\<close>
  "type_chars [] w = (None, w)"
| "type_chars (c # cs) w =
     (case os_write [c] w of
        Inl e \<Rightarrow> (Some e, w)
      | Inr w1 \<Rightarrow> type_chars cs (emit (Sleep 10) w1))"

definition process_iter :: "'a state \<Rightarrow> ctl \<times> 'a state" where
  \<comment> \<open>one pass through the body of the \<open>while\<close> loop of \<open>_process_commands\<close>; an empty queue
      is the \<open>queue.Empty\<close> of the timed-out \<open>get\<close>; an exception other than
      \<open>queue.Empty\<close> is not caught and ends the thread\<close>
  "process_iter st =
     (case st of (s, w) \<Rightarrow>
        (case command_queue s of
           [] \<Rightarrow> (Continue, (s, w))
         | cmd # rest \<Rightarrow>
             (let s1 = s\<lparr>command_queue := rest\<rparr> in
              if cmd = ''EXIT'' then
                (case os_write ''/exit\<newline>'' w of
                   Inl e \<Rightarrow> (Died e, (s1, w))
                 | Inr w1 \<Rightarrow> (Broke, (s1, w1)))
              else if cmd \<noteq> [] then
                (case type_chars cmd w of
                   (Some e, w1) \<Rightarrow> (Died e, (s1, w1))
                 | (None, w1) \<Rightarrow>
                     (case os_write [CR] (emit (Sleep 50) w1) of
                        Inl e \<Rightarrow> (Died e, (s1, emit (Sleep 50) w1))
                      | Inr w2 \<Rightarrow> (Continue, (s1, w2))))
              else (Continue, (s1, w)))))"

fun process_commands :: "nat \<Rightarrow> 'a state \<Rightarrow> thread_end \<times> 'a state" where
  \<comment> \<open>\<open>_process_commands\<close> run for at most the given number of passes; \<open>Looping\<close> when the
      loop is still polling after them\<close>
  "process_commands 0 st = (Looping, st)"
| "process_commands (Suc n) st =
     (if \<not> running (fst st) then (Finished, st)
      else (case process_iter st of
              (Continue, st') \<Rightarrow> process_commands n st'
            | (Broke, st') \<Rightarrow> (Finished, st')
            | (Died e, st') \<Rightarrow> (Crashed e, st')))"

fun keyboard_loop :: "char option list \<Rightarrow> 'a world \<Rightarrow> 'a world" where
  \<comment> \<open>the \<open>while\<close> loop of \<open>_read_keyboard\<close> over the outcomes of the polls made while the
      running flag is seen set: \<open>None\<close> is a poll without a character; a failing write is
      swallowed by \<open>except: pass\<close> and leaves the loop\<close>
  "keyboard_loop [] w = w"
| "keyboard_loop (None # ps) w = keyboard_loop ps w"
| "keyboard_loop (Some c # ps) w =
     (case os_write [c] w of Inl e \<Rightarrow> w | Inr w1 \<Rightarrow> keyboard_loop ps w1)"

definition read_keyboard ::
  "('a \<Rightarrow> 'a) \<Rightarrow> char option list \<Rightarrow> 'a world \<Rightarrow> thread_end \<times> 'a world" where
  \<comment> \<open>\<open>_read_keyboard\<close>; \<open>raw\<close> is what \<open>tty.setraw\<close> does to the attributes\<close>
  "read_keyboard raw polls w =
     (if \<not> tty_ok w then (Crashed TermiosError, w)
      else
        (let old_settings = tty w;
             w1 = emit Setraw (w\<lparr>tty := raw (tty w)\<rparr>);
             w2 = keyboard_loop polls w1
         in case tcsetattr old_settings w2 of
              Inl e \<Rightarrow> (Crashed e, w2)
            | Inr w3 \<Rightarrow> (Finished, w3)))"

datatype poll = NoData | Data string | EOF | ReadError

definition read_output_iter :: "poll \<Rightarrow> 'a state \<Rightarrow> ctl \<times> 'a state" where
  \<comment> \<open>one pass through the body of the \<open>while\<close> loop of \<open>_read_output\<close>\<close>
  "read_output_iter p st =
     (case st of (s, w) \<Rightarrow>
        (case p of
           NoData \<Rightarrow> (Continue, (s, w))
         | Data d \<Rightarrow> (Continue, (s, emit (Stdout d) w))
         | EOF \<Rightarrow> (Broke, (s\<lparr>running := False\<rparr>, emit (SetRunning False) w))
         | ReadError \<Rightarrow> (Broke, (s\<lparr>running := False\<rparr>, emit (SetRunning False) w))))"

section \<open>The driving loop of \<open>main\<close>\<close>

text \<open>
  The main thread is driven by a list of events: the recogniser returns an utterance,
  the recogniser call raises (an error of the engine, or the keyboard interrupt that
  arrives while it blocks), or the child exits by itself and the output loop reads the
  end of file.  The state of the loop is the session, the world and the latch
  \<open>listening_for_command\<close>.
\<close>

datatype event = Heard string | Raises exn | ChildExit int

datatype loop_exit = AwaitInput | LoopEnded | BreakExit | Exc exn | StopHangs

type_synonym 'a mstate = "session \<times> 'a world \<times> bool"

definition voice_iteration :: "'a \<Rightarrow> string \<Rightarrow> 'a mstate \<Rightarrow> loop_exit \<times> 'a mstate" where
  \<comment> \<open>the body of the \<open>while\<close> loop after \<open>text = recorder.text()\<close>; \<open>AwaitInput\<close> stands for
      going round the loop again\<close>
  "voice_iteration old_settings text m =
     (case m of (s, w, listening) \<Rightarrow>
        if strip text = [] then (AwaitInput, (s, w, listening))
        else
          (case tcsetattr old_settings w of
             Inl e \<Rightarrow> (Exc e, (s, w, listening))
           | Inr w1 \<Rightarrow>
               (let w2 = emit (Print (''\<newline>[Voice heard: '' @ text @ '']'')) w1 in
                if contains ''exit'' (lower text) \<and> contains ''claude'' (lower text) then
                  (let w3 = emit (Print ''\<newline>[Voice: Exiting...]'') w2 in
                   case stop (s, w3) of
                     None \<Rightarrow> (StopHangs, (s, w3, listening))
                   | Some (r, (s', w4)) \<Rightarrow> (BreakExit, (s', w4, listening)))
                else
                  (case extract_command text of
                     Some command \<Rightarrow>
                       if command \<noteq> [] then
                         (let w3 = emit (Print (''[Voice command: '' @ command @ '']'')) w2;
                              (s', w4) = send_command command (s, w3)
                          in (AwaitInput, (s', w4, listening)))
                       else
                         (AwaitInput, (s, emit (Print ''[Listening for command...]'') w2, True))
                   | None \<Rightarrow>
                       if listening then
                         (let w3 = emit (Print (''[Voice command: '' @ text @ '']'')) w2;
                              (s', w4) = send_command text (s, w3)
                          in (AwaitInput, (s', w4, False)))
                       else (AwaitInput, (s, w2, listening))))))"

definition child_exits :: "int \<Rightarrow> 'a state \<Rightarrow> 'a state" where
  \<comment> \<open>the child terminates by itself and \<open>_read_output\<close> reads the end of file\<close>
  "child_exits status st =
     (case st of (s, w) \<Rightarrow>
        snd (read_output_iter EOF
               (s, if child w = Alive then w\<lparr>child := Zombie status\<rparr> else w)))"

fun main_loop :: "event list \<Rightarrow> 'a \<Rightarrow> 'a mstate \<Rightarrow> loop_exit \<times> 'a mstate"
  and await_text :: "event list \<Rightarrow> 'a \<Rightarrow> 'a mstate \<Rightarrow> loop_exit \<times> 'a mstate" where
  "main_loop evs old_settings m =
     (if \<not> running (fst m) then (LoopEnded, m) else await_text evs old_settings m)"
| "await_text [] old_settings m = (AwaitInput, m)"
| "await_text (Raises e # evs) old_settings m = (Exc e, m)"
| "await_text (ChildExit status # evs) old_settings m =
     (case m of (s, w, listening) \<Rightarrow>
        (case child_exits status (s, w) of
           (s', w') \<Rightarrow> await_text evs old_settings (s', w', listening)))"
| "await_text (Heard text # evs) old_settings m =
     (case voice_iteration old_settings text m of
        (AwaitInput, m') \<Rightarrow> main_loop evs old_settings m'
      | (x, m') \<Rightarrow> (x, m'))"

definition cleanup ::
  "('a \<Rightarrow> 'a) \<Rightarrow> session option \<Rightarrow> 'a option \<Rightarrow> 'a world \<Rightarrow> (session option \<times> 'a world) option" where
  \<comment> \<open>the \<open>finally\<close> block of \<open>main\<close> run without interference; \<open>None\<close> when
      \<open>session.stop()\<close> never returns\<close>
  "cleanup sane session old_settings w =
     (case (case session of
              None \<Rightarrow> Some (None, w)
            | Some s \<Rightarrow>
                (case stop (s, w) of
                   None \<Rightarrow> None
                 | Some (r, (s', w')) \<Rightarrow> Some (Some s', w'))) of
        None \<Rightarrow> None
      | Some (session', w1) \<Rightarrow>
          (let w2 = (case old_settings of
                       None \<Rightarrow> w1
                     | Some old \<Rightarrow> (case tcsetattr old w1 of Inl e \<Rightarrow> w1 | Inr w' \<Rightarrow> w'))
           in Some (session', reset_terminal sane w2)))"


text \<open>
  The \<open>finally\<close> block does not run alone.  \<open>_read_keyboard\<close> is a daemon thread that
  nothing joins: once it has left its loop (the running flag is clear, or a write has
  failed) its own \<open>finally\<close> restores the snapshot that the thread took when it started,
  and this can happen before, between or after the three steps of the \<open>finally\<close> block
  of \<open>main\<close>, or not at all before the process exits.  The end of \<open>main\<close> is therefore run
  along a schedule of jobs of the two threads.  When the attributes of the terminal
  can no longer be set, the restore of the keyboard thread raises and the thread ends
  without a change.  \<open>stop\<close> does not touch the terminal, so a restore of the keyboard
  thread that falls inside \<open>stop\<close> acts on the terminal as one that falls just before or
  just after it.
\<close>

datatype 'a job = MainStop | MainRestore 'a | MainReset | KeyboardFinally 'a

fun run_job :: "('a \<Rightarrow> 'a) \<Rightarrow> 'a job \<Rightarrow> 'a state \<Rightarrow> 'a state option" where
  \<comment> \<open>\<open>session.stop()\<close>; the \<open>try\<close> around \<open>termios.tcsetattr\<close> with \<open>except: pass\<close>;
      \<open>reset_terminal()\<close>; the \<open>finally\<close> of \<open>_read_keyboard\<close>\<close>
  "run_job sane MainStop st = (case stop st of None \<Rightarrow> None | Some (r, st') \<Rightarrow> Some st')"
| "run_job sane (MainRestore old) st =
     (case st of (s, w) \<Rightarrow>
        Some (s, case tcsetattr old w of Inl e \<Rightarrow> w | Inr w' \<Rightarrow> w'))"
| "run_job sane MainReset st = (case st of (s, w) \<Rightarrow> Some (s, reset_terminal sane w))"
| "run_job sane (KeyboardFinally kold) st =
     (case st of (s, w) \<Rightarrow>
        Some (s, if tty_ok w then emit (ByThread KeyboardThread Tcsetattr) (w\<lparr>tty := kold\<rparr>)
                 else w))"

fun run_jobs :: "('a \<Rightarrow> 'a) \<Rightarrow> 'a job list \<Rightarrow> 'a state \<Rightarrow> 'a state option" where
  "run_jobs sane [] st = Some st"
| "run_jobs sane (j # js) st =
     (case run_job sane j st of None \<Rightarrow> None | Some st' \<Rightarrow> run_jobs sane js st')"

definition main_finally :: "'a \<Rightarrow> 'a job list" where
  \<comment> \<open>the \<open>finally\<close> block of \<open>main\<close> with a session and a snapshot\<close>
  "main_finally old_settings = [MainStop, MainRestore old_settings, MainReset]"




section \<open>Concurrent writers of the master handle\<close>

text \<open>
  \<open>_read_keyboard\<close> and \<open>_process_commands\<close> run as two threads and no lock is taken by
  either, so the calls of the two loops can be scheduled in any order that keeps each
  loop's own order.  A schedule is a list of calls tagged with the loop that makes them.
\<close>

datatype writer = KeyboardRelay | CommandInjector

definition schedules :: "action list \<Rightarrow> action list \<Rightarrow> (writer \<times> action) list set" where
  "schedules kc ic = shuffles (map (Pair KeyboardRelay) kc) (map (Pair CommandInjector) ic)"

fun written :: "action \<Rightarrow> string" where
  "written (Write d) = d"
| "written a = []"

fun is_write :: "action \<Rightarrow> bool" where
  "is_write (Write d) = True"
| "is_write a = False"

definition master_stream :: "(writer \<times> action) list \<Rightarrow> string" where
  \<comment> \<open>the bytes that reach the master handle, in order\<close>
  "master_stream sch = concat (map (written \<circ> snd) sch)"

definition calls_of :: "writer \<Rightarrow> (writer \<times> action) list \<Rightarrow> action list" where
  "calls_of t sch = map snd (filter (\<lambda>x. fst x = t) sch)"

definition writes_of :: "action list \<Rightarrow> string list" where
  "writes_of acts = map written (filter is_write acts)"

definition unsplit :: "(writer \<times> action) list \<Rightarrow> bool" where
  \<comment> \<open>the write calls of the command injector form one block: no write of the keyboard
      relay falls between two of them\<close>
  "unsplit sch =
     (let ws = filter (is_write \<circ> snd) sch;
          blk = dropWhile (\<lambda>x. fst x = KeyboardRelay) ws;
          rest = dropWhile (\<lambda>x. fst x = CommandInjector) blk
      in filter (\<lambda>x. fst x = CommandInjector) rest = [])"

section \<open>Concrete states\<close>

text \<open>
  A started session and a world whose terminal attributes are reduced to the echo flag:
  \<open>tty.setraw\<close> switches it off, \<open>stty sane\<close> switches it on.
\<close>

definition demo_session :: session where
  "demo_session = snd (start True (Forked 4242 5) (new_session ''/usr/local/bin/claude''))"

definition demo_world :: "bool world" where
  "demo_world =
     \<lparr>tty = False, tty_ok = True, child = Alive, ignores_sigterm = False,
      sigterm_status = 15, master_ok = True, trace = []\<rparr>"

definition exited_world :: "bool world" where
  \<comment> \<open>the child has already exited with status 0 and has not been waited for\<close>
  "exited_world = demo_world\<lparr>child := Zombie 0\<rparr>"

definition raw_echo :: "bool \<Rightarrow> bool" where
  "raw_echo echo = False"


definition keyboard_calls :: "string \<Rightarrow> action list" where
  \<comment> \<open>the calls of \<open>_read_keyboard\<close> when the given keys are typed\<close>
  "keyboard_calls keys = trace (snd (read_keyboard raw_echo (map Some keys) demo_world))"

definition injector_calls :: "string \<Rightarrow> action list" where
  \<comment> \<open>the calls of \<open>_process_commands\<close> for one queued command\<close>
  "injector_calls cmd =
     trace (snd (snd (process_iter (demo_session\<lparr>command_queue := [cmd]\<rparr>, demo_world))))"

definition split_schedule :: "(writer \<times> action) list" where
  "split_schedule =
     [(KeyboardRelay, Setraw),
      (CommandInjector, Write ''l''), (CommandInjector, Sleep 10),
      (KeyboardRelay, Write ''x''),
      (CommandInjector, Write ''s''), (CommandInjector, Sleep 10),
      (CommandInjector, Sleep 50), (CommandInjector, Write [CR]),
      (KeyboardRelay, Tcsetattr)]"


section \<open>Wake-phrase extraction on the utterances of the specification\<close>

lemma extract_hey_claude: "extract_command ''hey claude'' = Some []"
  by code_simp

lemma extract_list_files: "extract_command ''list files'' = None"
  by code_simp

lemma strip_utterances:
  "strip ''hey claude'' = ''hey claude''"
  "strip ''list files'' = ''list files''"
  by code_simp+

lemma no_exit_token:
  "contains ''exit'' (lower ''hey claude'') = False"
  "contains ''exit'' (lower ''list files'') = False"
  by code_simp+

text \<open>
  C6.  The specification says that the utterance "claude please list files" yields the
  command "list files".  In the code the filler word is removed only from the
  lower-cased copy that is tested for emptiness; the value returned is cut again out of
  the original text, where the filler word is still present.
\<close>

theorem extract_command_keeps_filler:
  "re_sub_filler (strip (split1 ''claude'' (strip (lower ''claude please list files'')) ! 1)) =
     ''list files'' \<and>
   extract_command ''claude please list files'' = Some ''please list files''"
  by code_simp

text \<open>
  C7.  From a running session with the latch off, the utterances "hey claude" and
  "list files" put exactly one command on the queue, "list files": the first utterance is
  a wake phrase alone, for which \<open>extract_command\<close> returns the empty string, so nothing is
  put and the latch is set; the second utterance is put verbatim and the latch is cleared.
\<close>

theorem hey_claude_then_command:
  assumes "running s" and "tty_ok w"
  shows "extract_command ''hey claude'' = Some [] \<and>
         (\<exists>w1. main_loop [Heard ''hey claude''] old (s, w, False) = (AwaitInput, (s, w1, True)) \<and>
               trace w1 = trace w @
                 [Tcsetattr, Print ''\<newline>[Voice heard: hey claude]'',
                  Print ''[Listening for command...]'']) \<and>
         main_loop [Heard ''hey claude'', Heard ''list files''] old (s, w, False) =
           (AwaitInput,
            (s\<lparr>command_queue := command_queue s @ [''list files'']\<rparr>,
             w\<lparr>tty := old,
               trace := trace w @
                 [Tcsetattr, Print ''\<newline>[Voice heard: hey claude]'',
                  Print ''[Listening for command...]'',
                  Tcsetattr, Print ''\<newline>[Voice heard: list files]'',
                  Print ''[Voice command: list files]'', QueuePut ''list files'']\<rparr>,
             False))"
  using assms
  by (simp add: voice_iteration_def tcsetattr_def emit_def send_command_def queue_put_def
      extract_hey_claude extract_list_files strip_utterances no_exit_token)

theorem hey_claude_then_command_witness:
  "running demo_session \<and> tty_ok demo_world \<and>
   main_loop [Heard ''hey claude'', Heard ''list files''] False (demo_session, demo_world, False) =
     (AwaitInput,
      (demo_session\<lparr>command_queue := [''list files'']\<rparr>,
       demo_world\<lparr>trace :=
           [Tcsetattr, Print ''\<newline>[Voice heard: hey claude]'',
            Print ''[Listening for command...]'',
            Tcsetattr, Print ''\<newline>[Voice heard: list files]'',
            Print ''[Voice command: list files]'', QueuePut ''list files'']\<rparr>,
       False))"
proof -
  have r: "running demo_session" and t: "tty_ok demo_world"
    by (simp_all add: demo_session_def demo_world_def start_def new_session_def)
  have q: "command_queue demo_session = []" and y: "tty demo_world = False"
    and tr: "trace demo_world = []"
    by (simp_all add: demo_session_def demo_world_def start_def new_session_def)
  from hey_claude_then_command [OF r t, of False] r t q y tr show ?thesis
    by simp
qed

section \<open>Facts about \<open>stop\<close> and about the fields that the driving loop never changes\<close>

lemma stop_unfold:
  "stop (s, w) =
     (let s' = s\<lparr>running := False, command_queue := command_queue s @ [''EXIT'']\<rparr>;
          w' = w\<lparr>trace := trace w @ [SetRunning False, QueuePut ''EXIT'']\<rparr>;
          w'' = w\<lparr>child := Reaped,
                  trace := trace w @ [SetRunning False, QueuePut ''EXIT'',
                                      Kill (the (pid s)), Waitpid (the (pid s))]\<rparr>
      in if truthy_pid (pid s) then
           (case child w of
              Reaped \<Rightarrow> Some (PyNone, (s', w'))
            | Zombie st \<Rightarrow> Some (PyNone, (s', w''))
            | Alive \<Rightarrow> if ignores_sigterm w then None else Some (PyNone, (s', w'')))
         else Some (PyNone, (s', w')))"
  by (simp add: stop_def send_command_def queue_put_def emit_def os_kill_def os_waitpid_def Let_def
      split: proc.splits)

lemma stop_returns:
  assumes "\<not> (child w = Alive \<and> ignores_sigterm w)"
  shows "\<exists>s' w'. stop (s, w) = Some (PyNone, (s', w'))"
  using assms by (cases "child w") (auto simp: stop_unfold Let_def)





section \<open>The two writers of the master handle\<close>

lemma calls_of_schedule:
  assumes "sch \<in> schedules kc ic"
  shows "calls_of KeyboardRelay sch = kc" and "calls_of CommandInjector sch = ic"
proof -
  let ?K = "\<lambda>x::writer \<times> action. fst x = KeyboardRelay"
  let ?I = "\<lambda>x::writer \<times> action. fst x = CommandInjector"
  have fk: "filter ?K (map (Pair KeyboardRelay) kc) = map (Pair KeyboardRelay) kc"
    and fk': "filter ?K (map (Pair CommandInjector) ic) = []"
    and fi: "filter ?I (map (Pair CommandInjector) ic) = map (Pair CommandInjector) ic"
    and fi': "filter ?I (map (Pair KeyboardRelay) kc) = []"
    by (simp_all add: filter_map o_def)
  from assms have "filter ?K sch \<in> filter ?K ` shuffles (map (Pair KeyboardRelay) kc) (map (Pair CommandInjector) ic)"
    unfolding schedules_def by (rule imageI)
  then have "filter ?K sch = map (Pair KeyboardRelay) kc"
    by (simp only: filter_shuffles fk fk') simp
  then show "calls_of KeyboardRelay sch = kc"
    by (simp add: calls_of_def o_def)
  from assms have "filter ?I sch \<in> filter ?I ` shuffles (map (Pair KeyboardRelay) kc) (map (Pair CommandInjector) ic)"
    unfolding schedules_def by (rule imageI)
  then have "filter ?I sch = map (Pair CommandInjector) ic"
    by (simp only: filter_shuffles fi fi') simp
  then show "calls_of CommandInjector sch = ic"
    by (simp add: calls_of_def o_def)
qed

lemma type_chars_ok:
  assumes "master_ok w"
  shows "type_chars cmd w =
           (None, w\<lparr>trace := trace w @ concat (map (\<lambda>c. [Write [c], Sleep 10]) cmd)\<rparr>)"
  using assms
proof (induction cmd arbitrary: w)
  case Nil
  then show ?case by simp
next
  case (Cons c cs)
  let ?w1 = "emit (Sleep 10) (emit (Write [c]) w)"
  from Cons.prems have "master_ok ?w1" by (simp add: emit_def)
  from Cons.IH[OF this] Cons.prems show ?case
    by (simp add: os_write_def emit_def)
qed

lemma injector_calls_command:
  assumes "cmd \<noteq> []" and "cmd \<noteq> ''EXIT''"
  shows "injector_calls cmd =
           concat (map (\<lambda>c. [Write [c], Sleep 10]) cmd) @ [Sleep 50, Write [CR]]"
proof -
  have "master_ok demo_world" and "trace demo_world = []"
    by (simp_all add: demo_world_def)
  with assms show ?thesis
    by (simp add: injector_calls_def process_iter_def type_chars_ok os_write_def emit_def)
qed

lemma writes_of_typing:
  "writes_of (concat (map (\<lambda>c. [Write [c], Sleep 10]) cmd) @ acts) =
     map (\<lambda>c. [c]) cmd @ writes_of acts"
  by (induction cmd) (simp_all add: writes_of_def)

lemma keyboard_loop_ok:
  assumes "master_ok w"
  shows "keyboard_loop (map Some keys) w = w\<lparr>trace := trace w @ map (\<lambda>k. Write [k]) keys\<rparr>"
  using assms
proof (induction keys arbitrary: w)
  case Nil
  then show ?case by simp
next
  case (Cons k ks)
  from Cons.prems have "master_ok (emit (Write [k]) w)" by (simp add: emit_def)
  from Cons.IH[OF this] Cons.prems show ?case
    by (simp add: os_write_def emit_def)
qed

lemma keyboard_calls_keys:
  "keyboard_calls keys = Setraw # map (\<lambda>k. Write [k]) keys @ [Tcsetattr]"
proof -
  have "master_ok (emit Setraw (demo_world\<lparr>tty := raw_echo (tty demo_world)\<rparr>))"
    by (simp add: demo_world_def emit_def)
  from keyboard_loop_ok[OF this] show ?thesis
    by (simp add: keyboard_calls_def read_keyboard_def tcsetattr_def emit_def demo_world_def)
qed

lemma writes_of_keys: "writes_of (map (\<lambda>k. Write [k]) keys @ acts) = map (\<lambda>k. [k]) keys @ writes_of acts"
  by (induction keys) (simp_all add: writes_of_def)

lemma keyboard_calls_x: "keyboard_calls ''x'' = [Setraw, Write ''x'', Tcsetattr]"
  by (simp add: keyboard_calls_keys)

lemma injector_calls_ls:
  "injector_calls ''ls'' = [Write ''l'', Sleep 10, Write ''s'', Sleep 10, Sleep 50, Write [CR]]"
  by (simp add: injector_calls_command)

lemma split_schedule_possible:
  "split_schedule \<in> schedules (keyboard_calls ''x'') (injector_calls ''ls'')"
  by (simp add: keyboard_calls_x injector_calls_ls schedules_def split_schedule_def
      Cons_in_shuffles_iff)

text \<open>
  C1.  The specification asks that the characters of one injected command are never
  separated by bytes of the keyboard relay.  The code takes no lock and writes every
  character of a command with a call of its own, so the guarantee holds per call only:
  in every schedule of the two loops each loop's calls keep their order, every write of
  the injector carries one character of the command or the final carriage return, and
  every write of the keyboard relay carries one key.
\<close>

theorem writes_interleave_per_call:
  assumes "cmd \<noteq> []" and "cmd \<noteq> ''EXIT''"
    and "sch \<in> schedules (keyboard_calls keys) (injector_calls cmd)"
  shows "calls_of CommandInjector sch = injector_calls cmd \<and>
         calls_of KeyboardRelay sch = keyboard_calls keys \<and>
         writes_of (injector_calls cmd) = map (\<lambda>c. [c]) cmd @ [[CR]] \<and>
         writes_of (keyboard_calls keys) = map (\<lambda>k. [k]) keys"
proof -
  have "writes_of (injector_calls cmd) = map (\<lambda>c. [c]) cmd @ [[CR]]"
    by (simp add: injector_calls_command[OF assms(1,2)] writes_of_typing) (simp add: writes_of_def)
  moreover have "writes_of (keyboard_calls keys) = map (\<lambda>k. [k]) keys"
  proof -
    have "writes_of (keyboard_calls keys) = writes_of (map (\<lambda>k. Write [k]) keys @ [Tcsetattr])"
      by (simp add: keyboard_calls_keys writes_of_def)
    then show ?thesis by (simp only: writes_of_keys) (simp add: writes_of_def)
  qed
  ultimately show ?thesis
    using calls_of_schedule[OF assms(3)] by simp
qed

theorem writes_interleave_per_call_witness:
  "''ls'' \<noteq> [] \<and> ''ls'' \<noteq> ''EXIT'' \<and>
   split_schedule \<in> schedules (keyboard_calls ''x'') (injector_calls ''ls'') \<and>
   calls_of CommandInjector split_schedule = injector_calls ''ls'' \<and>
   calls_of KeyboardRelay split_schedule = keyboard_calls ''x'' \<and>
   writes_of (injector_calls ''ls'') = [''l'', ''s'', [CR]] \<and>
   writes_of (keyboard_calls ''x'') = [''x'']"
proof -
  have a: "''ls'' \<noteq> []" and b: "''ls'' \<noteq> ''EXIT''" by simp_all
  from writes_interleave_per_call [OF a b split_schedule_possible] split_schedule_possible
  show ?thesis by simp
qed

text \<open>
  A schedule in which the key \<open>x\<close> is written between the two characters of the command
  \<open>ls\<close>: the child reads \<open>lxs\<close> and the carriage return.
\<close>

theorem command_split_by_keystroke:
  "split_schedule \<in> schedules (keyboard_calls ''x'') (injector_calls ''ls'') \<and>
   master_stream split_schedule = ''lxs'' @ [CR] \<and> \<not> unsplit split_schedule"
  by (simp add: split_schedule_possible) (simp add: split_schedule_def master_stream_def unsplit_def)

section \<open>Stopping the session\<close>

lemma demo_fields:
  "running demo_session" "pid demo_session = Some 4242" "command_queue demo_session = []"
  "master_fd demo_session = Some 5" "truthy_pid (pid demo_session)"
  "tty demo_world = False" "tty_ok demo_world" "child demo_world = Alive"
  "\<not> ignores_sigterm demo_world" "master_ok demo_world" "trace demo_world = []"
  "sigterm_status demo_world = 15"
  by (simp_all add: demo_session_def demo_world_def start_def new_session_def truthy_pid_def)

lemma exited_fields:
  "tty exited_world = False" "tty_ok exited_world" "child exited_world = Zombie 0"
  "\<not> ignores_sigterm exited_world" "master_ok exited_world" "trace exited_world = []"
  by (simp_all add: exited_world_def demo_world_def)




text \<open>
  C4.  The specification gives \<open>stop\<close> a grace period and a signal that is sent only to a
  child that has not exited.  The code has neither: with a process id set and a child
  that has not been reaped, \<open>stop\<close> clears the running flag, puts \<open>EXIT\<close> on the queue,
  sends the termination signal at once, whether the child is running or has already
  exited, and then waits for the exit status; \<open>stop\<close> itself writes nothing to the child.
  It returns unless the child is running and ignores the signal.
\<close>

theorem stop_order:
  assumes "pid s = Some p" and "p \<noteq> 0" and "child w \<noteq> Reaped"
    and "\<not> (child w = Alive \<and> ignores_sigterm w)"
  shows "stop (s, w) =
           Some (PyNone,
                 (s\<lparr>running := False, command_queue := command_queue s @ [''EXIT'']\<rparr>,
                  w\<lparr>child := Reaped,
                    trace := trace w @
                      [SetRunning False, QueuePut ''EXIT'', Kill p, Waitpid p]\<rparr>))"
  using assms
  by (cases "child w") (simp_all add: stop_unfold truthy_pid_def Let_def)

theorem stop_order_witness:
  "pid demo_session = Some 4242 \<and> (4242::int) \<noteq> 0 \<and> child exited_world \<noteq> Reaped \<and>
   \<not> (child exited_world = Alive \<and> ignores_sigterm exited_world) \<and>
   stop (demo_session, exited_world) =
     Some (PyNone,
           (demo_session\<lparr>running := False, command_queue := [''EXIT'']\<rparr>,
            exited_world\<lparr>child := Reaped,
              trace := [SetRunning False, QueuePut ''EXIT'', Kill 4242, Waitpid 4242]\<rparr>))"
proof -
  have a: "pid demo_session = Some 4242" and b: "(4242::int) \<noteq> 0"
    and c: "child exited_world \<noteq> Reaped"
    and d: "\<not> (child exited_world = Alive \<and> ignores_sigterm exited_world)"
    by (simp_all add: demo_fields exited_fields)
  from stop_order [OF a b c d] a b c d show ?thesis
    by (simp add: demo_fields exited_fields)
qed

text \<open>
  The child has already exited and is still signalled, and on the utterance
  "claude exit" nothing has been written to the child when the signal is sent.
\<close>

theorem signal_without_grace:
  "stop (demo_session, exited_world) =
     Some (PyNone,
           (demo_session\<lparr>running := False, command_queue := [''EXIT'']\<rparr>,
            exited_world\<lparr>child := Reaped,
              trace := [SetRunning False, QueuePut ''EXIT'', Kill 4242, Waitpid 4242]\<rparr>)) \<and>
   main_loop [Heard ''claude exit''] False (demo_session, demo_world, False) =
     (BreakExit,
      (demo_session\<lparr>running := False, command_queue := [''EXIT'']\<rparr>,
       demo_world\<lparr>child := Reaped,
         trace := [Tcsetattr, Print ''\<newline>[Voice heard: claude exit]'',
                   Print ''\<newline>[Voice: Exiting...]'',
                   SetRunning False, QueuePut ''EXIT'', Kill 4242, Waitpid 4242]\<rparr>,
       False))"
proof -
  have s: "strip ''claude exit'' = ''claude exit''"
    and x: "contains ''exit'' (lower ''claude exit'')"
    and c: "contains ''claude'' (lower ''claude exit'')"
    by code_simp+
  show ?thesis
    by (simp add: stop_unfold demo_fields exited_fields truthy_pid_def Let_def
        voice_iteration_def tcsetattr_def emit_def s x c)
qed

section \<open>The command injector and the sentinel\<close>

lemma process_iter_sentinel:
  assumes "command_queue s = ''EXIT'' # rest" and "master_ok w"
  shows "process_iter (s, w) =
           (Broke, (s\<lparr>command_queue := rest\<rparr>, w\<lparr>trace := trace w @ [Write ''/exit\<newline>'']\<rparr>))"
  using assms by (simp add: process_iter_def os_write_def emit_def)

text \<open>
  C5.  The specification lets the drain loop request the stop of the session after it has
  written the shutdown directive.  The code writes \<open>/exit\<close> and a line feed and then
  leaves the loop with \<open>break\<close>: the rest of the queue, the running flag and every other
  field of the session are left as they are, and nothing but the write is done.
\<close>

theorem sentinel_writes_exit_and_breaks:
  assumes "running s" and "command_queue s = ''EXIT'' # rest" and "master_ok w"
  shows "process_commands (Suc n) (s, w) =
           (Finished,
            (s\<lparr>command_queue := rest\<rparr>, w\<lparr>trace := trace w @ [Write ''/exit\<newline>'']\<rparr>)) \<and>
         running (s\<lparr>command_queue := rest\<rparr>)"
  using assms by (simp add: process_iter_sentinel)

theorem sentinel_writes_exit_and_breaks_witness:
  "running (demo_session\<lparr>command_queue := [''EXIT'']\<rparr>) \<and>
   command_queue (demo_session\<lparr>command_queue := [''EXIT'']\<rparr>) = ''EXIT'' # [] \<and>
   master_ok demo_world \<and>
   process_commands (Suc 0) (demo_session\<lparr>command_queue := [''EXIT'']\<rparr>, demo_world) =
     (Finished, (demo_session, demo_world\<lparr>trace := [Write ''/exit\<newline>'']\<rparr>))"
proof -
  have a: "running (demo_session\<lparr>command_queue := [''EXIT'']\<rparr>)"
    and b: "command_queue (demo_session\<lparr>command_queue := [''EXIT'']\<rparr>) = ''EXIT'' # []"
    and c: "master_ok demo_world"
    by (simp_all add: demo_fields)
  have d: "demo_session\<lparr>command_queue := []\<rparr> = demo_session"
    by (simp add: demo_session_def start_def new_session_def)
  from sentinel_writes_exit_and_breaks [OF a b c, of 0] a b c d show ?thesis
    by (simp add: demo_fields)
qed

text \<open>
  After the sentinel has been taken from the queue the running flag is still set and no
  stop has been requested: the trace holds the write alone.
\<close>

theorem sentinel_leaves_session_running:
  "process_iter (demo_session\<lparr>command_queue := [''EXIT'']\<rparr>, demo_world) =
     (Broke, (demo_session, demo_world\<lparr>trace := [Write ''/exit\<newline>'']\<rparr>)) \<and>
   running demo_session"
  by (simp add: process_iter_def os_write_def emit_def demo_session_def demo_world_def
      start_def new_session_def)

lemma extract_EXIT: "extract_command ''EXIT'' = None"
  by code_simp

lemma strip_EXIT: "strip ''EXIT'' = ''EXIT''"
  by code_simp

lemma no_claude_in_EXIT: "contains ''claude'' (lower ''EXIT'') = False"
  by code_simp

text \<open>
  C9.  The text \<open>EXIT\<close> that reaches the queue as a voice command is taken for the
  sentinel.  With the latch armed by "hey claude", the utterance "EXIT" is put on the
  queue verbatim by \<open>send_command\<close>; the injector that finds it at the head of the queue
  types none of its characters, writes \<open>/exit\<close> and a line feed and leaves its loop, which
  is what it does with the sentinel that \<open>stop\<close> puts.
\<close>

theorem spoken_EXIT_is_sentinel:
  assumes "running s" and "tty_ok w" and "master_ok w" and "command_queue s = []"
    and "\<not> (child w = Alive \<and> ignores_sigterm w)"
  shows "\<exists>w1. main_loop [Heard ''hey claude'', Heard ''EXIT''] old (s, w, False) =
                 (AwaitInput, (fst (send_command ''EXIT'' (s, w)), w1, False)) \<and>
              command_queue (fst (send_command ''EXIT'' (s, w))) = [''EXIT''] \<and>
              process_commands (Suc n) (fst (send_command ''EXIT'' (s, w)), w1) =
                (Finished, (s, w1\<lparr>trace := trace w1 @ [Write ''/exit\<newline>'']\<rparr>)) \<and>
              map_option (command_queue \<circ> fst \<circ> snd) (stop (s, w)) =
                Some (command_queue (fst (send_command ''EXIT'' (s, w))))"
proof -
  let ?s1 = "fst (send_command ''EXIT'' (s, w))"
  let ?w1 = "w\<lparr>tty := old,
               trace := trace w @
                 [Tcsetattr, Print ''\<newline>[Voice heard: hey claude]'',
                  Print ''[Listening for command...]'',
                  Tcsetattr, Print ''\<newline>[Voice heard: EXIT]'',
                  Print ''[Voice command: EXIT]'', QueuePut ''EXIT'']\<rparr>"
  have s1: "?s1 = s\<lparr>command_queue := [''EXIT'']\<rparr>"
    using assms(4) by (simp add: send_command_def queue_put_def)
  have lp: "main_loop [Heard ''hey claude'', Heard ''EXIT''] old (s, w, False) =
              (AwaitInput, (?s1, ?w1, False))"
    using assms(1,2,4)
    by (simp add: voice_iteration_def tcsetattr_def emit_def send_command_def queue_put_def
        extract_hey_claude extract_EXIT strip_utterances strip_EXIT no_exit_token
        no_claude_in_EXIT)
  have r: "running ?s1" and q: "command_queue ?s1 = ''EXIT'' # []" and m: "master_ok ?w1"
    using assms(1,3) by (simp_all add: s1)
  have emptied: "?s1\<lparr>command_queue := []\<rparr> = s"
    using assms(4) by (simp add: s1)
  have pc: "process_commands (Suc n) (?s1, ?w1) =
              (Finished, (s, ?w1\<lparr>trace := trace ?w1 @ [Write ''/exit\<newline>'']\<rparr>))"
    using r by (simp add: process_iter_sentinel[OF q m] emptied del: process_commands.simps)
       (simp add: process_iter_sentinel[OF q m] emptied)
  have st: "map_option (command_queue \<circ> fst \<circ> snd) (stop (s, w)) = Some (command_queue ?s1)"
    using assms(4,5)
    by (simp add: stop_unfold Let_def send_command_def queue_put_def split: proc.splits)
  from lp q pc st show ?thesis by blast
qed

theorem spoken_EXIT_is_sentinel_witness:
  "running demo_session \<and> tty_ok demo_world \<and> master_ok demo_world \<and>
   command_queue demo_session = [] \<and>
   \<not> (child demo_world = Alive \<and> ignores_sigterm demo_world) \<and>
   (\<exists>w1. main_loop [Heard ''hey claude'', Heard ''EXIT''] False (demo_session, demo_world, False) =
           (AwaitInput, (demo_session\<lparr>command_queue := [''EXIT'']\<rparr>, w1, False)) \<and>
         process_commands (Suc 0) (demo_session\<lparr>command_queue := [''EXIT'']\<rparr>, w1) =
           (Finished, (demo_session, w1\<lparr>trace := trace w1 @ [Write ''/exit\<newline>'']\<rparr>)))"
proof -
  have a: "running demo_session" and b: "tty_ok demo_world" and c: "master_ok demo_world"
    and d: "command_queue demo_session = []"
    and e: "\<not> (child demo_world = Alive \<and> ignores_sigterm demo_world)"
    by (simp_all add: demo_fields)
  have f: "fst (send_command ''EXIT'' (demo_session, demo_world)) =
             demo_session\<lparr>command_queue := [''EXIT'']\<rparr>"
    by (simp add: send_command_def queue_put_def d)
  from spoken_EXIT_is_sentinel [OF a b c d e, of False 0] a b c d e show ?thesis
    unfolding f by blast
qed

section \<open>Starting the session\<close>

text \<open>
  C8.  The specification lets \<open>start\<close> fail with a \<open>StartupError\<close> when the terminal pair
  cannot be allocated or the child cannot be spawned.  The code defines no such error
  and does not learn in the parent whether \<open>os.execv\<close> succeeds in the child.  When
  \<open>pty.fork()\<close> fails, its \<open>OSError\<close> leaves \<open>start\<close> and the session is unchanged: no
  process id, no master handle, no thread.  When \<open>pty.fork()\<close> succeeds, \<open>start\<close> returns
  in the parent with the process id and the master handle stored, the running flag set
  and the three threads started, whether or not the child can execute the program.
\<close>

theorem start_outcomes:
  assumes "p \<noteq> 0"
  shows "start exec_ok ForkFails s = (Raised OSError, s) \<and>
         start exec_ok (Forked p fd) s =
           (Returned (),
            s\<lparr>pid := Some p, master_fd := Some fd, running := True,
              threads := [OutputThread, InputThread, KeyboardThread]\<rparr>)"
  using assms by (simp add: start_def)

theorem start_outcomes_witness:
  "(4242::int) \<noteq> 0 \<and>
   start False ForkFails (new_session ''/usr/local/bin/claude'') =
     (Raised OSError, new_session ''/usr/local/bin/claude'') \<and>
   master_fd (new_session ''/usr/local/bin/claude'') = None \<and>
   start False (Forked 4242 5) (new_session ''/usr/local/bin/claude'') =
     (Returned (), demo_session)"
proof -
  have a: "(4242::int) \<noteq> 0" by simp
  from start_outcomes [OF a, of False "new_session ''/usr/local/bin/claude''" 5] show ?thesis
    by (simp add: demo_session_def start_def new_session_def)
qed

text \<open>
  The child cannot execute the program and \<open>start\<close> still returns in the parent, with the
  session running and the master handle kept.
\<close>

theorem start_ignores_exec_failure:
  "start False (Forked 4242 5) (new_session ''/usr/local/bin/claude'') =
     (Returned (),
      \<lparr>claude_path = ''/usr/local/bin/claude'', master_fd = Some 5, pid = Some 4242,
       running = True, command_queue = [],
       threads = [OutputThread, InputThread, KeyboardThread]\<rparr>)"
  by (simp add: start_def new_session_def)

section \<open>The listening latch\<close>




section \<open>The exit paths of the driving loop\<close>


lemma cleanup_as_jobs:
  "cleanup sane (Some s) (Some old) w =
     (case run_jobs sane (main_finally old) (s, w) of
        None \<Rightarrow> None
      | Some (s', w') \<Rightarrow> Some (Some s', w'))"
  by (simp add: cleanup_def main_finally_def split: option.splits sum.splits)







section \<open>The exit token and the latch\<close>















end
